theory Spec2Isabelle
  imports Main
begin

section \<open>JavaScript values\<close>

text \<open>
  The values the write path of \<^verbatim>\<open>collection2.js\<close> handles: documents, modifiers,
  selectors, option objects and callbacks. Objects are association lists in insertion
  order (a JavaScript object has each key at most once). Numbers are integers here;
  arrays are outside the value universe. The three kinds of function value the code
  meets are kept apart: a function supplied by the caller, the default callback that
  \<^verbatim>\<open>doValidate\<close> synthesises on the client, and the closure returned by
  \<^verbatim>\<open>wrapCallbackForNotUnique(col, doc, vCtx, cb)\<close>.
\<close>

datatype jsval =
    Undefined
  | Null
  | Bool bool
  | Num int
  | Str string
  | Obj "(string \<times> jsval) list"
  | UserFn nat
  | DefaultCallback string
  | NotUniqueWrapper jsval jsval jsval

text \<open>Truthiness, as \<^verbatim>\<open>if (v)\<close>, \<^verbatim>\<open>!v\<close> and \<^verbatim>\<open>a || b\<close> test it.\<close>

fun truthy :: "jsval \<Rightarrow> bool" where
  "truthy Undefined = False"
| "truthy Null = False"
| "truthy (Bool b) = b"
| "truthy (Num n) = (n \<noteq> 0)"
| "truthy (Str s) = (s \<noteq> [])"
| "truthy (Obj kvs) = True"
| "truthy (UserFn n) = True"
| "truthy (DefaultCallback t) = True"
| "truthy (NotUniqueWrapper d c f) = True"

text \<open>\<^verbatim>\<open>typeof v === "function"\<close>.\<close>

fun is_function :: "jsval \<Rightarrow> bool" where
  "is_function (UserFn n) = True"
| "is_function (DefaultCallback t) = True"
| "is_function (NotUniqueWrapper d c f) = True"
| "is_function v = False"

text \<open>\<^verbatim>\<open>_.isObject(v)\<close>: objects and functions.\<close>

fun isObject :: "jsval \<Rightarrow> bool" where
  "isObject (Obj kvs) = True"
| "isObject v = is_function v"

fun is_nullish :: "jsval \<Rightarrow> bool" where
  "is_nullish Undefined = True"
| "is_nullish Null = True"
| "is_nullish v = False"

text \<open>
  Property read \<^verbatim>\<open>v.k\<close> on a value that is not \<^verbatim>\<open>undefined\<close> or \<^verbatim>\<open>null\<close>
  (there the read raises a TypeError, which the callers below write out): an own
  property of an object, \<^verbatim>\<open>undefined\<close> otherwise.
\<close>

fun lookup :: "(string \<times> jsval) list \<Rightarrow> string \<Rightarrow> jsval" where
  "lookup [] k = Undefined"
| "lookup ((k', v) # kvs) k = (if k' = k then v else lookup kvs k)"

fun obj_get :: "jsval \<Rightarrow> string \<Rightarrow> jsval" where
  "obj_get (Obj kvs) k = lookup kvs k"
| "obj_get v k = Undefined"

text \<open>
  Assignment \<^verbatim>\<open>o[k] = v\<close>: an existing key keeps its place, a new key goes last.
  On a primitive the assignment has no effect.
\<close>

definition assign :: "(string \<times> jsval) list \<Rightarrow> string \<Rightarrow> jsval \<Rightarrow> (string \<times> jsval) list" where
  "assign kvs k v =
     (if k \<in> fst ` set kvs then map (\<lambda>(k', v'). if k' = k then (k', v) else (k', v')) kvs
      else kvs @ [(k, v)])"

fun obj_set :: "jsval \<Rightarrow> string \<Rightarrow> jsval \<Rightarrow> jsval" where
  "obj_set (Obj kvs) k v = Obj (assign kvs k v)"
| "obj_set w k v = w"

text \<open>\<^verbatim>\<open>delete o[k]\<close>.\<close>

fun obj_delete :: "jsval \<Rightarrow> string \<Rightarrow> jsval" where
  "obj_delete (Obj kvs) k = Obj (filter (\<lambda>(k', v'). k' \<noteq> k) kvs)"
| "obj_delete w k = w"

text \<open>
  \<^verbatim>\<open>_.clone(v)\<close>: a primitive is returned as it is; anything \<^verbatim>\<open>_.isObject\<close> accepts is
  copied with \<^verbatim>\<open>_.extend({}, v)\<close>, its own enumerable properties, which for a function
  value are none.
\<close>

fun clone :: "jsval \<Rightarrow> jsval" where
  "clone (Obj kvs) = Obj kvs"
| "clone v = (if is_function v then Obj [] else v)"

text \<open>
  \<^verbatim>\<open>_.extend(target, source)\<close>: every enumerable property of the source is assigned to
  the target, in the source's order. The \<^verbatim>\<open>for ... in\<close> loop over a string goes through
  its positions, written in decimal, each holding the character there; the other
  primitives and the function values have no enumerable property.
\<close>

fun show_nat :: "nat \<Rightarrow> string" where
  "show_nat n =
     (if n < 10 then [char_of (48 + n)] else show_nat (n div 10) @ [char_of (48 + n mod 10)])"

declare show_nat.simps [simp del]

fun extend_obj :: "jsval \<Rightarrow> jsval \<Rightarrow> jsval" where
  "extend_obj target (Obj kvs) = fold (\<lambda>(k, v) t. obj_set t k v) kvs target"
| "extend_obj target (Str s) =
     fold (\<lambda>(i, c) t. obj_set t (show_nat i) (Str [c])) (zip [0..<length s] s) target"
| "extend_obj target source = target"

text \<open>\<^verbatim>\<open>args[i]\<close>, \<^verbatim>\<open>undefined\<close> past the end; \<^verbatim>\<open>args[i] = v\<close>, which extends the array.\<close>

definition arg :: "jsval list \<Rightarrow> nat \<Rightarrow> jsval" where
  "arg args i = (if i < length args then args ! i else Undefined)"

definition set_arg :: "jsval list \<Rightarrow> nat \<Rightarrow> jsval \<Rightarrow> jsval list" where
  "set_arg args i v =
     (if i < length args then args[i := v]
      else args @ replicate (i - length args) Undefined @ [v])"

section \<open>Strings\<close>

text \<open>\<^verbatim>\<open>String.prototype.indexOf\<close> and \<^verbatim>\<open>String.prototype.split\<close> with a string separator.\<close>

fun starts_with :: "string \<Rightarrow> string \<Rightarrow> bool" where
  "starts_with [] s = True"
| "starts_with (p # ps) [] = False"
| "starts_with (p # ps) (c # cs) = (p = c \<and> starts_with ps cs)"

fun indexOf_from :: "nat \<Rightarrow> string \<Rightarrow> string \<Rightarrow> int" where
  "indexOf_from i [] pat = (if pat = [] then int i else - 1)"
| "indexOf_from i (c # cs) pat =
     (if starts_with pat (c # cs) then int i else indexOf_from (Suc i) cs pat)"

definition indexOf :: "string \<Rightarrow> string \<Rightarrow> int" where
  "indexOf s pat = indexOf_from 0 s pat"

text \<open>
  \<open>split_go sep skip acc rest\<close>: \<open>acc\<close> is the piece being read, reversed; \<open>skip\<close>
  counts the characters of a separator just matched that are still to be passed over.
  The separator is not empty at either call site of the source.
\<close>

fun split_go :: "string \<Rightarrow> nat \<Rightarrow> string \<Rightarrow> string \<Rightarrow> string list" where
  "split_go sep skip acc [] = [rev acc]"
| "split_go sep (Suc skip) acc (c # cs) = split_go sep skip acc cs"
| "split_go sep 0 acc (c # cs) =
     (if starts_with sep (c # cs) then rev acc # split_go sep (length sep - 1) [] cs
      else split_go sep 0 (c # acc) cs)"

definition split :: "string \<Rightarrow> string \<Rightarrow> string list" where
  "split s sep = split_go sep 0 [] s"

section \<open>Field definitions and the platform\<close>

text \<open>
  The schema options of lines 2--7: \<^verbatim>\<open>index\<close> is a number, a string or a boolean;
  the flags are booleans, an absent flag reading as false in every test the code makes.
  \<^verbatim>\<open>'index' in definition\<close> is \<open>index d \<noteq> None\<close>.
\<close>

datatype index_spec = IdxNum int | IdxStr string | IdxBool bool

record field_def =
  index :: "index_spec option"
  unique :: bool
  denyInsert :: bool
  denyUpdate :: bool
  optional :: bool

text \<open>\<^verbatim>\<open>Meteor.isServer\<close> and \<^verbatim>\<open>Meteor.isClient\<close>.\<close>

record env =
  isServer :: bool
  isClient :: bool

section \<open>Index setup in attachSchema (lines 82--110)\<close>

record ensure_opts =
  ix_background :: bool
  ix_name :: string
  ix_unique :: bool
  ix_sparse :: bool

datatype index_action =
    EnsureIndex "string \<times> index_spec" ensure_opts
  | DropIndex string

text \<open>The body of the \<^verbatim>\<open>Meteor.startup\<close> function scheduled for one field.\<close>

definition index_startup :: "string \<Rightarrow> field_def \<Rightarrow> index_spec \<Rightarrow> index_action" where
  "index_startup fieldName definition indexValue0 =
     (let indexName = ''c2_'' @ fieldName;
          indexValue = (if indexValue0 = IdxBool True then IdxNum 1 else indexValue0);
          uniq = (unique definition \<and> (indexValue = IdxNum 1 \<or> indexValue = IdxNum (- 1)));
          sparse = (optional definition \<and> uniq)
      in if indexValue \<noteq> IdxBool False
         then EnsureIndex (fieldName, indexValue)
                \<lparr>ix_background = True, ix_name = indexName, ix_unique = uniq, ix_sparse = sparse\<rparr>
         else DropIndex indexName)"

text \<open>The loop over the schema: the actions scheduled, in the order of the fields.\<close>

fun scheduled_index_actions :: "env \<Rightarrow> (string \<times> field_def) list \<Rightarrow> index_action list" where
  "scheduled_index_actions e [] = []"
| "scheduled_index_actions e ((fieldName, definition) # rest) =
     (case index definition of
        Some indexValue \<Rightarrow>
          (if isServer e then [index_startup fieldName definition indexValue] else [])
      | None \<Rightarrow> [])
     @ scheduled_index_actions e rest"

section \<open>The custom validator (lines 113--175)\<close>

text \<open>
  The storage capability the validator consumes: \<^verbatim>\<open>self.find(q).count()\<close> and
  \<^verbatim>\<open>self.findOne(q)\<close> (\<open>None\<close> for \<^verbatim>\<open>undefined\<close>, no document found).
\<close>

record store =
  find_count :: "jsval \<Rightarrow> nat"
  findOne :: "jsval \<Rightarrow> jsval option"

datatype query = CountQuery jsval | FindOneQuery jsval

text \<open>The validator returns \<^verbatim>\<open>true\<close> or the name of an error kind.\<close>

datatype verdict = Valid | Invalid string

text \<open>
  The errors the code raises: a TypeError of the language (a property read on
  \<^verbatim>\<open>undefined\<close>, a call of a value that is not a function), the usage errors
  \<^verbatim>\<open>new Error(...)\<close> of \<^verbatim>\<open>doValidate\<close>, and its validation error: the message and
  the \<^verbatim>\<open>invalidKeys\<close> attached to it.
\<close>

record invalid_key =
  ik_name :: string
  ik_type :: string
  ik_value :: jsval
  ik_message :: string

datatype js_error =
    TypeError
  | UsageError string
  | ValidationError string "invalid_key list"

text \<open>
  \<^verbatim>\<open>this.operator\<close> is \<open>None\<close> when the key is not under a modifier operator; \<^verbatim>\<open>if (op)\<close>
  also fails on the empty string. \<^verbatim>\<open>[1, -1, true].indexOf(def.index) !== -1\<close> is
  membership by strict equality.
\<close>

definition op_truthy :: "string option \<Rightarrow> bool" where
  "op_truthy op = (case op of None \<Rightarrow> False | Some s \<Rightarrow> s \<noteq> [])"

definition usable_index :: "field_def \<Rightarrow> bool" where
  "usable_index d = (index d \<in> {Some (IdxNum 1), Some (IdxNum (- 1)), Some (IdxBool True)})"

text \<open>
  The validator, with the queries it sends to the store in order. \<open>skipClientUniqueCheck\<close>
  is \<^verbatim>\<open>self._skipClientUniqueCheck\<close>, \<open>selector\<close> is \<^verbatim>\<open>self._c2._selector\<close>.
  A truthy selector that is a number or a boolean is returned by \<^verbatim>\<open>_.clone\<close> as it is;
  \<^verbatim>\<open>sel[key] = {}\<close> has no effect on it and \<^verbatim>\<open>sel[key]["$ne"] = val\<close> raises a
  TypeError, after the first count was made.
\<close>

definition validator ::
  "env \<Rightarrow> store \<Rightarrow> bool \<Rightarrow> jsval \<Rightarrow> field_def \<Rightarrow> jsval \<Rightarrow> string option \<Rightarrow> string
     \<Rightarrow> (js_error + verdict) \<times> query list" where
  "validator e st skipClientUniqueCheck selector def val op key =
     (if denyInsert def \<and> val \<noteq> Undefined \<and> \<not> op_truthy op then (Inr (Invalid ''insertNotAllowed''), [])
      else if denyUpdate def \<and> op_truthy op \<and>
              (op \<noteq> Some ''$set'' \<or> (op = Some ''$set'' \<and> val \<noteq> Undefined))
        then (Inr (Invalid ''updateNotAllowed''), [])
      else if unique def \<and> \<not> skipClientUniqueCheck then
        (if val = Undefined \<or> val = Null then (Inr Valid, [])
         else if isServer e \<and> usable_index def then (Inr Valid, [])
         else
           (let test = Obj [(key, val)] in
            if op_truthy op \<and> op \<noteq> Some ''$inc'' then
              (let sel0 = clone selector in
               if \<not> truthy sel0 then (Inr Valid, [])
               else
                 (let sel = (case sel0 of Str s \<Rightarrow> Obj [(''_id'', sel0)] | _ \<Rightarrow> sel0);
                      totalUsing = find_count st test
                  in case sel of
                       Obj kvs \<Rightarrow>
                         (let sel' = obj_set sel key (Obj [(''$ne'', val)]);
                              totalWillUse = find_count st sel'
                          in (Inr (if totalUsing + totalWillUse > 1 then Invalid ''notUnique'' else Valid),
                              [CountQuery test, CountQuery sel']))
                     | _ \<Rightarrow> (Inl TypeError, [CountQuery test])))
            else
              (Inr (if findOne st test \<noteq> None then Invalid ''notUnique'' else Valid),
               [FindOneQuery test])))
      else (Inr Valid, []))"

section \<open>The in-memory store\<close>

text \<open>
  The storage engine is outside the repository. A collection is a list of documents
  together with the engine's reading of a query: \<open>sem q d\<close> says that the document \<open>d\<close>
  is found by the query \<open>q\<close>. \<^verbatim>\<open>find(q).count()\<close> counts the documents found,
  \<^verbatim>\<open>findOne(q)\<close> gives the first of them.
\<close>

definition store_of :: "(jsval \<Rightarrow> jsval \<Rightarrow> bool) \<Rightarrow> jsval list \<Rightarrow> store" where
  "store_of sem docs =
     \<lparr>find_count = (\<lambda>q. length (filter (sem q) docs)),
      findOne = (\<lambda>q. find (sem q) docs)\<rparr>"

text \<open>
  The two counts in the words of the specification, for an engine that reads queries
  by \<open>sem\<close>: the documents of the whole collection that hold the value for the field
  (those the equality query \<^verbatim>\<open>{key: val}\<close> finds), and the documents matched by the
  selector that do not hold it.
\<close>

definition spec_countMatchingValue ::
  "(jsval \<Rightarrow> jsval \<Rightarrow> bool) \<Rightarrow> jsval list \<Rightarrow> string \<Rightarrow> jsval \<Rightarrow> nat" where
  "spec_countMatchingValue sem docs key val = length (filter (sem (Obj [(key, val)])) docs)"

definition spec_countWillAdopt ::
  "(jsval \<Rightarrow> jsval \<Rightarrow> bool) \<Rightarrow> jsval list \<Rightarrow> jsval \<Rightarrow> string \<Rightarrow> jsval \<Rightarrow> nat" where
  "spec_countWillAdopt sem docs sel key val =
     length (filter (\<lambda>d. sem sel d \<and> \<not> sem (Obj [(key, val)]) d) docs)"

text \<open>
  The second count as the code's query \<^verbatim>\<open>sel[key] = {$ne: val}\<close> makes it: the
  selector's own constraint on the field is overwritten, so only its constraints on
  the other fields select the documents.
\<close>

definition countWillAdopt_others ::
  "(jsval \<Rightarrow> jsval \<Rightarrow> bool) \<Rightarrow> jsval list \<Rightarrow> jsval \<Rightarrow> string \<Rightarrow> jsval \<Rightarrow> nat" where
  "countWillAdopt_others sem docs sel key val =
     length (filter (\<lambda>d. sem (obj_delete sel key) d \<and> \<not> sem (Obj [(key, val)]) d) docs)"

text \<open>
  For concrete runs, a small engine: it reads a selector whose fields are each
  constrained by a plain value (equality) or by \<^verbatim>\<open>{$ne: v}\<close> (the field differs from
  \<open>v\<close>, an absent field reading as \<^verbatim>\<open>undefined\<close>). It is used on such selectors only;
  dotted keys and the other query operators are not interpreted by it.
\<close>

definition is_ne_constraint :: "jsval \<Rightarrow> bool" where
  "is_ne_constraint c = (case c of Obj cs \<Rightarrow> ''$ne'' \<in> fst ` set cs | _ \<Rightarrow> False)"

definition field_sat :: "jsval \<Rightarrow> jsval \<Rightarrow> bool" where
  "field_sat c v = (if is_ne_constraint c then v \<noteq> obj_get c ''$ne'' else v = c)"

fun matches :: "jsval \<Rightarrow> jsval \<Rightarrow> bool" where
  "matches (Obj sel) d = list_all (\<lambda>(k, c). field_sat c (obj_get d k)) sel"
| "matches q d = False"

definition mem_store :: "jsval list \<Rightarrow> store" where
  "mem_store docs =
     \<lparr>find_count = (\<lambda>q. length (filter (matches q) docs)),
      findOne = (\<lambda>q. find (matches q) docs)\<rparr>"

text \<open>The selector the update branch of the validator works on (lines 149--154).\<close>

definition selector_object :: "jsval \<Rightarrow> jsval" where
  "selector_object selector =
     (case clone selector of Str s \<Rightarrow> Obj [(''_id'', Str s)] | sel \<Rightarrow> sel)"

definition has_key :: "jsval \<Rightarrow> string \<Rightarrow> bool" where
  "has_key v k = (case v of Obj kvs \<Rightarrow> k \<in> fst ` set kvs | _ \<Rightarrow> False)"

section \<open>The schema capability\<close>

text \<open>
  SimpleSchema is outside the repository; \<^verbatim>\<open>doValidate\<close> is modelled over what it
  consumes. \<open>clean\<close> gives the content of the object after \<^verbatim>\<open>schema.clean(doc, opts)\<close>
  has rewritten it in place; \<open>validate\<close> is \<^verbatim>\<open>namedContext(name).validate(doc, opts)\<close>
  together with the \<^verbatim>\<open>invalidKeys()\<close> it leaves in the context.
\<close>

record op_context =
  isInsert :: bool
  isUpdate :: bool
  isUpsert :: bool
  userId :: jsval
  isFromTrustedCode :: bool

record clean_opts =
  filter_opt :: bool
  autoConvert :: bool
  getAutoValues :: bool
  isModifier :: bool
  extendAutoValueContext :: op_context

record validate_opts =
  modifier :: bool
  upsert :: bool
  extendedCustomContext :: op_context

record validation =
  isValid :: bool
  invalidKeys :: "invalid_key list"

record schema =
  allowsKey :: "string \<Rightarrow> bool"
  clean :: "clean_opts \<Rightarrow> jsval \<Rightarrow> jsval"
  validate :: "jsval \<Rightarrow> jsval \<Rightarrow> validate_opts \<Rightarrow> validation"
  keyErrorMessage :: "jsval \<Rightarrow> string \<Rightarrow> string"
  messageForError :: "string \<Rightarrow> string \<Rightarrow> jsval \<Rightarrow> string"

section \<open>doValidate (lines 313--475)\<close>

text \<open>What the run of \<^verbatim>\<open>doValidate\<close> and of the wrapped methods does to the outside.\<close>

datatype event =
    CleanCall jsval clean_opts
  | ValidateCall jsval jsval validate_opts
  | CallbackCall jsval js_error jsval
  | StorageCall string "jsval list"
  | MakeNewID

datatype dv_outcome = Returned "jsval list" | NoArgs | Thrown js_error

text \<open>
  The result: how the call ends, \<^verbatim>\<open>self._c2._selector\<close> when it ends, the content of
  the caller's document (or modifier) object when it ends, and the calls made.
\<close>

record dv_result =
  outcome :: dv_outcome
  selector_after :: jsval
  doc_after :: jsval
  trace :: "event list"

text \<open>The local variables after the arguments are gathered (lines 322--352).\<close>

record gathered =
  g_args :: "jsval list"
  g_selector :: jsval
  g_doc :: jsval
  g_options :: jsval
  g_callback :: jsval

definition normalise :: "jsval list \<Rightarrow> jsval \<Rightarrow> jsval \<Rightarrow> jsval \<Rightarrow> jsval \<Rightarrow> gathered" where
  "normalise args sel doc options callback =
     (let swap = (\<not> truthy callback \<and> is_function options);
          callback' = (if swap then options else callback);
          options' = (if swap then Obj [] else options);
          options'' = (if truthy options' then options' else Obj [])
      in \<lparr>g_args = args, g_selector = sel, g_doc = doc, g_options = options'',
          g_callback = callback'\<rparr>)"

definition gather :: "string \<Rightarrow> jsval list \<Rightarrow> js_error + gathered" where
  "gather type args =
     (if type = ''insert'' then
        (let doc = arg args 0; options = arg args 1; callback = arg args 2;
             args' = (if is_function options then [doc, options]
                      else if is_function callback then [doc, callback]
                      else [doc])
         in Inr (normalise args' Null doc options callback))
      else if type = ''update'' \<or> type = ''upsert'' then
        Inr (normalise args (arg args 0) (arg args 1) (arg args 2) (arg args 3))
      else Inl (UsageError ''invalid type argument''))"

text \<open>Lines 358--372.\<close>

definition is_upsert :: "string \<Rightarrow> jsval \<Rightarrow> bool" where
  "is_upsert type options =
     (type = ''upsert'' \<or> (type = ''update'' \<and> obj_get options ''upsert'' = Bool True))"

definition effective_callback :: "env \<Rightarrow> string \<Rightarrow> jsval \<Rightarrow> jsval" where
  "effective_callback e type callback =
     (if isClient e \<and> \<not> truthy callback then DefaultCallback type else callback)"

text \<open>Lines 374--380: whether \<^verbatim>\<open>_id\<close> is taken off the document.\<close>

definition detaches_id :: "env \<Rightarrow> schema \<Rightarrow> jsval \<Rightarrow> bool" where
  "detaches_id e sch doc =
     (isServer e \<and> truthy (obj_get doc ''_id'') \<and> \<not> allowsKey sch ''_id'')"

text \<open>Lines 382--398: the options \<^verbatim>\<open>doClean\<close> hands to \<^verbatim>\<open>schema.clean\<close>.\<close>

definition op_ctx :: "string \<Rightarrow> jsval \<Rightarrow> jsval \<Rightarrow> bool \<Rightarrow> op_context" where
  "op_ctx type options uid trusted =
     \<lparr>isInsert = (type = ''insert''),
      isUpdate = (type = ''update'' \<and> obj_get options ''upsert'' \<noteq> Bool True),
      isUpsert = is_upsert type options,
      userId = uid,
      isFromTrustedCode = trusted\<rparr>"

definition doClean_opts ::
  "string \<Rightarrow> jsval \<Rightarrow> jsval \<Rightarrow> bool \<Rightarrow> bool \<Rightarrow> bool \<Rightarrow> bool \<Rightarrow> clean_opts" where
  "doClean_opts type options uid trusted getAuto filt autoConv =
     \<lparr>filter_opt = filt, autoConvert = autoConv, getAutoValues = getAuto,
      isModifier = (type \<noteq> ''insert''),
      extendAutoValueContext = op_ctx type options uid trusted\<rparr>"

text \<open>Line 402: the first pass, on the live document.\<close>

definition first_clean_opts ::
  "env \<Rightarrow> string \<Rightarrow> jsval \<Rightarrow> bool \<Rightarrow> jsval \<Rightarrow> bool \<Rightarrow> clean_opts" where
  "first_clean_opts e type options skipAutoValue uid trusted =
     doClean_opts type options uid trusted (isServer e \<and> \<not> skipAutoValue) True True"

text \<open>Line 422: the pass on the snapshot, made on the client only.\<close>

definition second_clean_opts :: "string \<Rightarrow> jsval \<Rightarrow> jsval \<Rightarrow> bool \<Rightarrow> clean_opts" where
  "second_clean_opts type options uid trusted =
     doClean_opts type options uid trusted True False False"

definition detached_doc :: "env \<Rightarrow> schema \<Rightarrow> jsval \<Rightarrow> jsval" where
  "detached_doc e sch doc = (if detaches_id e sch doc then obj_delete doc ''_id'' else doc)"

definition cleaned_doc ::
  "env \<Rightarrow> schema \<Rightarrow> string \<Rightarrow> gathered \<Rightarrow> bool \<Rightarrow> jsval \<Rightarrow> bool \<Rightarrow> jsval" where
  "cleaned_doc e sch type g skipAutoValue uid trusted =
     clean sch (first_clean_opts e type (g_options g) skipAutoValue uid trusted)
       (detached_doc e sch (g_doc g))"

text \<open>Lines 410--415: the shallow clone, with the selector merged under \<^verbatim>\<open>$set\<close>.\<close>

definition merged_clone :: "env \<Rightarrow> string \<Rightarrow> gathered \<Rightarrow> jsval \<Rightarrow> jsval" where
  "merged_clone e type g cleaned =
     (let docToValidate = clone cleaned in
      if isServer e \<and> is_upsert type (g_options g) \<and> isObject (g_selector g) then
        (let s = (if truthy (obj_get docToValidate ''$set'') then obj_get docToValidate ''$set''
                  else Obj [])
         in obj_set docToValidate ''$set'' (extend_obj (clone (g_selector g)) s))
      else docToValidate)"

definition snapshot ::
  "env \<Rightarrow> schema \<Rightarrow> string \<Rightarrow> gathered \<Rightarrow> bool \<Rightarrow> jsval \<Rightarrow> bool \<Rightarrow> jsval" where
  "snapshot e sch type g skipAutoValue uid trusted =
     (let m = merged_clone e type g (cleaned_doc e sch type g skipAutoValue uid trusted) in
      if isClient e then clean sch (second_clean_opts type (g_options g) uid trusted) m else m)"

text \<open>
  The clone of line 410 is shallow: an object nested in the document at a top-level key
  is the same object in the clone. \<^verbatim>\<open>schema.clean\<close> writes into the objects it is
  handed, so what the pass of line 422 writes inside such a nested object is written
  into the live document too, while what it does to the top level of the clone is not.
  \<open>shared_back fresh live cleaned\<close> is the live document after the clone has become
  \<open>cleaned\<close>: at each top-level key that holds an object in both, the object is the
  same and the live document has its new content. The keys in \<open>fresh\<close> are those at
  which the clone was given an object of its own, as line 413 does with \<^verbatim>\<open>$set\<close>.
\<close>

fun is_obj :: "jsval \<Rightarrow> bool" where
  "is_obj (Obj kvs) = True"
| "is_obj v = False"

fun shared_back :: "string list \<Rightarrow> jsval \<Rightarrow> jsval \<Rightarrow> jsval" where
  "shared_back fresh (Obj kvs) (Obj cleaned) =
     Obj (map (\<lambda>(k, v). if k \<notin> set fresh \<and> is_obj v \<and> is_obj (lookup cleaned k)
                        then (k, lookup cleaned k) else (k, v)) kvs)"
| "shared_back fresh live cleaned = live"

text \<open>
  The live document after both passes. Meteor sets exactly one of \<^verbatim>\<open>isServer\<close> and
  \<^verbatim>\<open>isClient\<close>; the merge of line 413 is made on the server, the second pass on the
  client.
\<close>

definition live_doc ::
  "env \<Rightarrow> schema \<Rightarrow> string \<Rightarrow> gathered \<Rightarrow> bool \<Rightarrow> jsval \<Rightarrow> bool \<Rightarrow> jsval" where
  "live_doc e sch type g skipAutoValue uid trusted =
     (let doc = cleaned_doc e sch type g skipAutoValue uid trusted in
      if isClient e then
        shared_back
          (if isServer e \<and> is_upsert type (g_options g) \<and> isObject (g_selector g)
           then [''$set''] else [])
          doc (snapshot e sch type g skipAutoValue uid trusted)
      else doc)"

text \<open>Lines 426--437.\<close>

definition validate_options :: "string \<Rightarrow> jsval \<Rightarrow> jsval \<Rightarrow> bool \<Rightarrow> validate_opts" where
  "validate_options type options uid trusted =
     \<lparr>modifier = (type = ''update'' \<or> type = ''upsert''),
      upsert = is_upsert type options,
      extendedCustomContext = op_ctx type options uid trusted\<rparr>"

definition validation_of ::
  "env \<Rightarrow> schema \<Rightarrow> string \<Rightarrow> gathered \<Rightarrow> bool \<Rightarrow> jsval \<Rightarrow> bool \<Rightarrow> validation" where
  "validation_of e sch type g skipAutoValue uid trusted =
     validate sch (obj_get (g_options g) ''validationContext'')
       (snapshot e sch type g skipAutoValue uid trusted)
       (validate_options type (g_options g) uid trusted)"

text \<open>Lines 460--467.\<close>

definition failure_message :: "schema \<Rightarrow> jsval \<Rightarrow> invalid_key list \<Rightarrow> string" where
  "failure_message sch vCtx keys =
     (case keys of
        [] \<Rightarrow> ''failed validation''
      | k # ks \<Rightarrow> ''failed validation'' @ '': '' @ ik_name k @ '': '' @ keyErrorMessage sch vCtx (ik_name k))"

text \<open>Lines 442--458: the argument list handed back on success.\<close>

definition success_args :: "string \<Rightarrow> gathered \<Rightarrow> jsval \<Rightarrow> jsval list" where
  "success_args type g doc =
     (let args = set_arg (g_args g) (if type = ''insert'' then 0 else 1) doc;
          last = length args - 1
      in if is_function (arg args last)
         then args[last := NotUniqueWrapper doc (obj_get (g_options g) ''validationContext'')
                             (arg args last)]
         else args)"

text \<open>
  Lines 354--474. The \<^verbatim>\<open>clean\<close> calls are recorded with the content handed in. On the
  server \<^verbatim>\<open>doc._id\<close> is read first, which raises a TypeError on a missing document;
  after that the document is an object that \<^verbatim>\<open>clean\<close> rewrites in place. \<open>live\<close> is
  the document after the pass on the snapshot, which reaches it through the objects the
  two share; it is what gets its \<^verbatim>\<open>_id\<close> back and goes into the argument list.
\<close>

definition validate_gathered ::
  "env \<Rightarrow> schema \<Rightarrow> string \<Rightarrow> gathered \<Rightarrow> bool \<Rightarrow> jsval \<Rightarrow> bool \<Rightarrow> dv_result" where
  "validate_gathered e sch type g skipAutoValue uid trusted =
     (if obj_get (g_options g) ''validate'' = Bool False then
        \<lparr>outcome = Returned (g_args g), selector_after = g_selector g, doc_after = g_doc g,
         trace = []\<rparr>
      else if isServer e \<and> is_nullish (g_doc g) then
        \<lparr>outcome = Thrown TypeError, selector_after = g_selector g, doc_after = g_doc g,
         trace = []\<rparr>
      else
        (let callback = effective_callback e type (g_callback g);
             vCtx = obj_get (g_options g) ''validationContext'';
             id = (if detaches_id e sch (g_doc g) then obj_get (g_doc g) ''_id'' else Undefined);
             doc0 = detached_doc e sch (g_doc g);
             doc = cleaned_doc e sch type g skipAutoValue uid trusted;
             merged = merged_clone e type g doc;
             docToValidate = snapshot e sch type g skipAutoValue uid trusted;
             live = live_doc e sch type g skipAutoValue uid trusted;
             v = validation_of e sch type g skipAutoValue uid trusted;
             calls =
               [CleanCall doc0 (first_clean_opts e type (g_options g) skipAutoValue uid trusted)]
               @ (if isClient e
                  then [CleanCall merged (second_clean_opts type (g_options g) uid trusted)]
                  else [])
               @ [ValidateCall vCtx docToValidate (validate_options type (g_options g) uid trusted)]
         in if isValid v then
              (let doc' = (if truthy id then obj_set live ''_id'' id else live) in
               \<lparr>outcome = Returned (success_args type g doc'), selector_after = Null,
                doc_after = doc', trace = calls\<rparr>)
            else
              (let error = ValidationError (failure_message sch vCtx (invalidKeys v)) (invalidKeys v) in
               if truthy callback then
                 (if is_function callback then
                    \<lparr>outcome = NoArgs, selector_after = Null, doc_after = live,
                     trace = calls @ [CallbackCall callback error (Bool False)]\<rparr>
                  else
                    \<lparr>outcome = Thrown TypeError, selector_after = Null, doc_after = live,
                     trace = calls\<rparr>)
               else
                 \<lparr>outcome = Thrown error, selector_after = Null, doc_after = live,
                  trace = calls\<rparr>)))"

text \<open>
  \<^verbatim>\<open>doValidate\<close>; \<open>selector0\<close> is \<^verbatim>\<open>self._c2._selector\<close> when it is entered. The check
  of \<^verbatim>\<open>args.length\<close> comes before the reset of the selector.
\<close>

definition doValidate ::
  "env \<Rightarrow> schema \<Rightarrow> jsval \<Rightarrow> string \<Rightarrow> jsval list \<Rightarrow> bool \<Rightarrow> jsval \<Rightarrow> bool \<Rightarrow> dv_result" where
  "doValidate e sch selector0 type args skipAutoValue uid trusted =
     (if args = [] then
        \<lparr>outcome = Thrown (UsageError (type @ '' requires an argument'')),
         selector_after = selector0, doc_after = Undefined, trace = []\<rparr>
      else
        (case gather type args of
           Inl err \<Rightarrow>
             \<lparr>outcome = Thrown err, selector_after = Null, doc_after = Undefined, trace = []\<rparr>
         | Inr g \<Rightarrow> validate_gathered e sch type g skipAutoValue uid trusted))"

section \<open>The wrapped insert, update and upsert (lines 288--307)\<close>

datatype write_outcome =
    ReturnsNewID
  | ReturnsUndefined
  | ReturnsSuper
  | Throws js_error

record write_result =
  w_outcome :: write_outcome
  w_selector :: jsval
  w_trace :: "event list"

text \<open>
  \<^verbatim>\<open>(Meteor.isClient && Meteor.userId && Meteor.userId()) || null\<close>, with \<open>currentUser\<close>
  what \<^verbatim>\<open>Meteor.userId()\<close> gives (\<^verbatim>\<open>undefined\<close> where there is no such function).
\<close>

definition wrapper_userId :: "env \<Rightarrow> jsval \<Rightarrow> jsval" where
  "wrapper_userId e currentUser = (if isClient e \<and> truthy currentUser then currentUser else Null)"

text \<open>
  \<open>c2\<close> is \<^verbatim>\<open>self._c2\<close>: the attached schema, if any. \<^verbatim>\<open>_super.apply(self, args)\<close> is
  recorded as a \<open>StorageCall\<close>.
\<close>

definition c2_write ::
  "env \<Rightarrow> schema option \<Rightarrow> jsval \<Rightarrow> jsval \<Rightarrow> string \<Rightarrow> jsval list \<Rightarrow> write_result" where
  "c2_write e c2 selector0 currentUser methodName args =
     (case c2 of
        None \<Rightarrow>
          \<lparr>w_outcome = ReturnsSuper, w_selector = selector0,
           w_trace = [StorageCall methodName args]\<rparr>
      | Some sch \<Rightarrow>
          (let r = doValidate e sch selector0 methodName args False
                     (wrapper_userId e currentUser) (isServer e)
           in case outcome r of
                Thrown err \<Rightarrow>
                  \<lparr>w_outcome = Throws err, w_selector = selector_after r, w_trace = trace r\<rparr>
              | NoArgs \<Rightarrow>
                  (if methodName = ''insert''
                   then \<lparr>w_outcome = ReturnsNewID, w_selector = selector_after r,
                         w_trace = trace r @ [MakeNewID]\<rparr>
                   else \<lparr>w_outcome = ReturnsUndefined, w_selector = selector_after r,
                         w_trace = trace r\<rparr>)
              | Returned args' \<Rightarrow>
                  \<lparr>w_outcome = ReturnsSuper, w_selector = selector_after r,
                   w_trace = trace r @ [StorageCall methodName args']\<rparr>))"

section \<open>wrapCallbackForNotUnique (lines 477--493)\<close>

text \<open>
  The error a storage call hands to its callback; \<open>None\<close> stands for a falsy first
  argument (no error).
\<close>

record storage_error =
  err_name :: string
  err_code :: "int option"
  err_message :: string

text \<open>
  The test of line 479 on an error object. Its middle operand is
  \<^verbatim>\<open>error.message.indexOf('MongoError: E11000' !== -1)\<close>: the argument of \<^verbatim>\<open>indexOf\<close> is the
  comparison \<^verbatim>\<open>'MongoError: E11000' !== -1\<close>, which is \<^verbatim>\<open>true\<close>; \<^verbatim>\<open>indexOf\<close> converts it to
  the string \<^verbatim>\<open>"true"\<close> and returns a position or -1, and that number stands as the
  operand of \<^verbatim>\<open>||\<close>, truthy unless it is 0.
\<close>

definition is_translated :: "storage_error \<Rightarrow> bool" where
  "is_translated error =
     (((err_name error = ''MongoError'' \<and> err_code error = Some 11001)
        \<or> indexOf (err_message error) ''true'' \<noteq> 0)
      \<and> indexOf (err_message error) ''c2_'' \<noteq> - 1)"

text \<open>
  \<^verbatim>\<open>error.message.split('c2_')[1].split(' ')[0]\<close>; a missing second piece would make
  the second \<^verbatim>\<open>split\<close> a TypeError.
\<close>

definition parse_field_name :: "string \<Rightarrow> js_error + string" where
  "parse_field_name message =
     (case split message ''c2_'' of
        p0 # p1 # ps \<Rightarrow> (case split p1 '' '' of f # fs \<Rightarrow> Inr f | [] \<Rightarrow> Inl TypeError)
      | _ \<Rightarrow> Inl TypeError)"

type_synonym contexts = "jsval \<Rightarrow> invalid_key list"

text \<open>
  One call of the function \<^verbatim>\<open>wrapCallbackForNotUnique(col, doc, vCtx, cb)\<close> returns, with
  the arguments \<open>(error, result)\<close>. \<open>contexts\<close> maps the name of a validation context of the
  collection's schema to its \<^verbatim>\<open>_invalidKeys\<close>; \<open>getInfoForKey\<close> is
  \<^verbatim>\<open>new MongoObject(doc).getInfoForKey(fName)\<close>, giving the \<^verbatim>\<open>value\<close> of the info if there
  is one. The result is the contexts afterwards and the call made to \<open>cb\<close>: the callback
  and the arguments it receives.
\<close>

definition notUnique_wrapper_call ::
  "schema \<Rightarrow> (jsval \<Rightarrow> string \<Rightarrow> jsval option) \<Rightarrow> contexts \<Rightarrow> jsval \<Rightarrow> jsval \<Rightarrow> jsval
     \<Rightarrow> storage_error option \<Rightarrow> jsval
     \<Rightarrow> js_error + contexts \<times> (jsval \<times> storage_error option \<times> jsval)" where
  "notUnique_wrapper_call sch getInfoForKey ctxs doc vCtx cb error result =
     (case error of
        None \<Rightarrow> Inr (ctxs, (cb, error, result))
      | Some err \<Rightarrow>
          (if is_translated err then
             (case parse_field_name (err_message err) of
                Inl te \<Rightarrow> Inl te
              | Inr fName \<Rightarrow>
                  (let fVal = (case getInfoForKey doc fName of Some v \<Rightarrow> v | None \<Rightarrow> Undefined);
                       record = \<lparr>ik_name = fName, ik_type = ''notUnique'', ik_value = fVal,
                                 ik_message = messageForError sch ''notUnique'' fName fVal\<rparr>
                   in Inr (ctxs(vCtx := ctxs vCtx @ [record]), (cb, error, result))))
           else Inr (ctxs, (cb, error, result))))"

section \<open>A small schema and platform for concrete runs\<close>

text \<open>
  A schema with one required key \<^verbatim>\<open>name\<close>: cleaning with \<^verbatim>\<open>filter\<close> set drops every
  other key of a document, validation fails exactly when \<^verbatim>\<open>name\<close> is missing. It
  declares no \<^verbatim>\<open>_id\<close>.
\<close>

definition name_required :: invalid_key where
  "name_required =
     \<lparr>ik_name = ''name'', ik_type = ''required'', ik_value = Undefined,
      ik_message = ''Name is required''\<rparr>"

definition name_schema :: schema where
  "name_schema =
     \<lparr>allowsKey = (\<lambda>k. k = ''name''),
      clean = (\<lambda>opts d. if filter_opt opts then
                           (case d of Obj kvs \<Rightarrow> Obj (filter (\<lambda>(k, v). k = ''name'') kvs) | _ \<Rightarrow> d)
                         else d),
      validate = (\<lambda>vCtx d opts.
                    if obj_get d ''name'' = Undefined
                    then \<lparr>isValid = False, invalidKeys = [name_required]\<rparr>
                    else \<lparr>isValid = True, invalidKeys = []\<rparr>),
      keyErrorMessage = (\<lambda>vCtx k. ''Name is required''),
      messageForError = (\<lambda>kind k v. k @ '' must be unique'')\<rparr>"

definition server :: env where
  "server = \<lparr>isServer = True, isClient = False\<rparr>"

definition client :: env where
  "client = \<lparr>isServer = False, isClient = True\<rparr>"

text \<open>\<^verbatim>\<open>getInfoForKey\<close> on a flat document: the info of a key that is present.\<close>

definition flat_info :: "jsval \<Rightarrow> string \<Rightarrow> jsval option" where
  "flat_info doc k = (if has_key doc k then Some (obj_get doc k) else None)"


text \<open>Field definitions, a collection and a schema's fields for concrete runs.\<close>

definition locked :: field_def where
  "locked =
     \<lparr>index = None, unique = False, denyInsert = False, denyUpdate = True, optional = True\<rparr>"

definition unique_plain :: field_def where
  "unique_plain =
     \<lparr>index = None, unique = True, denyInsert = False, denyUpdate = False, optional = False\<rparr>"

definition coded_docs :: "jsval list" where
  "coded_docs =
     [Obj [(''_id'', Str ''a''), (''code'', Str ''A'')],
      Obj [(''_id'', Str ''b''), (''code'', Str ''B'')]]"

definition indexed_fields :: "(string \<times> field_def) list" where
  "indexed_fields =
     [(''email'', \<lparr>index = Some (IdxBool True), unique = True, denyInsert = False,
                   denyUpdate = False, optional = True\<rparr>),
      (''place'', \<lparr>index = Some (IdxStr ''2d''), unique = True, denyInsert = False,
                   denyUpdate = False, optional = True\<rparr>)]"

text \<open>Documents, an argument list and a storage error for concrete runs.\<close>

definition ageless :: jsval where
  "ageless = Obj [(''age'', Num 5)]"

definition named :: jsval where
  "named = Obj [(''name'', Str ''a'')]"

definition with_id :: jsval where
  "with_id = Obj [(''_id'', Str ''abc''), (''age'', Num 5)]"

definition named_with_id :: jsval where
  "named_with_id = Obj [(''_id'', Str ''abc''), (''name'', Str ''a'')]"

definition skipped_update :: "jsval list" where
  "skipped_update =
     [Obj [(''name'', Str ''a'')], Obj [(''$set'', Obj [(''name'', Str ''b'')])],
      Obj [(''validate'', Bool False)]]"

definition not_authorized :: storage_error where
  "not_authorized =
     \<lparr>err_name = ''MongoError'', err_code = Some 13,
      err_message = ''not authorized on c2_app to execute command''\<rparr>"

text \<open>
  The condition of the translator in the words of the specification: a duplicate-key
  error (the name and code of one, or the \<^verbatim>\<open>MongoError: E11000\<close> text in its message)
  whose message refers to an index named by the \<^verbatim>\<open>c2_\<close> convention.
\<close>

definition spec_duplicate_key_error :: "storage_error \<Rightarrow> bool" where
  "spec_duplicate_key_error error =
     (((err_name error = ''MongoError'' \<and> err_code error = Some 11001)
        \<or> indexOf (err_message error) ''MongoError: E11000'' \<noteq> - 1)
      \<and> indexOf (err_message error) ''c2_'' \<noteq> - 1)"

text \<open>
  A schema with an automatic value: cleaning a modifier with \<^verbatim>\<open>getAutoValues\<close> set
  writes \<^verbatim>\<open>updatedAt\<close> under \<^verbatim>\<open>$set\<close>; every modifier is valid.
\<close>

definition stamp_schema :: schema where
  "stamp_schema =
     \<lparr>allowsKey = (\<lambda>k. k = ''name'' \<or> k = ''updatedAt''),
      clean = (\<lambda>opts d. if getAutoValues opts
                         then obj_set d ''$set''
                                (obj_set (if truthy (obj_get d ''$set'') then obj_get d ''$set''
                                          else Obj [])
                                   ''updatedAt'' (Num 7))
                         else d),
      validate = (\<lambda>vCtx d opts. \<lparr>isValid = True, invalidKeys = []\<rparr>),
      keyErrorMessage = (\<lambda>vCtx k. []),
      messageForError = (\<lambda>kind k v. k @ '' must be unique'')\<rparr>"

definition rename_update :: "jsval list" where
  "rename_update = [Str ''id1'', Obj [(''$set'', Obj [(''name'', Str ''b'')])]]"

section \<open>Objects and the in-memory store\<close>

lemma list_all_map_assign:
  "list_all P (map (\<lambda>(k', v'). if k' = k then (k', v) else (k', v')) kvs) =
     (list_all P (filter (\<lambda>(k', v'). k' \<noteq> k) kvs) \<and> (k \<in> fst ` set kvs \<longrightarrow> P (k, v)))"
  by (induction kvs) auto

lemma filter_other_keys:
  "key \<notin> fst ` set kvs \<Longrightarrow> filter (\<lambda>(k', v'). k' \<noteq> key) kvs = kvs"
  by (induction kvs) auto

lemma list_all_assign:
  "list_all P (assign kvs k v) = (list_all P (filter (\<lambda>(k', v'). k' \<noteq> k) kvs) \<and> P (k, v))"
  by (simp add: assign_def list_all_map_assign filter_other_keys)

lemma ne_is_constraint: "is_ne_constraint (Obj [(''$ne'', val)])"
  by (simp add: is_ne_constraint_def)

lemma matches_test:
  "\<not> is_ne_constraint val \<Longrightarrow> matches (Obj [(key, val)]) d = (obj_get d key = val)"
  by (simp add: field_sat_def)

lemma matches_assign:
  "matches (Obj (assign kvs key (Obj [(''$ne'', val)]))) d =
     (matches (Obj (filter (\<lambda>(k', v'). k' \<noteq> key) kvs)) d \<and> obj_get d key \<noteq> val)"
  by (simp add: list_all_assign field_sat_def ne_is_constraint)

lemma matches_conjunctive:
  assumes "\<not> is_ne_constraint val"
  shows "matches (obj_set sel key (Obj [(''$ne'', val)])) d =
           (matches (obj_delete sel key) d \<and> \<not> matches (Obj [(key, val)]) d)"
proof (cases sel)
  case (Obj kvs)
  have "matches (Obj (assign kvs key (Obj [(''$ne'', val)]))) d =
          (matches (Obj (filter (\<lambda>(k', v'). k' \<noteq> key) kvs)) d \<and> obj_get d key \<noteq> val)"
    by (rule matches_assign)
  moreover have "matches (Obj [(key, val)]) d = (obj_get d key = val)"
    using assms by (rule matches_test)
  ultimately show ?thesis
    using Obj by (simp del: matches.simps)
qed simp_all

lemma mem_store_store_of: "mem_store docs = store_of matches docs"
  by (simp add: mem_store_def store_of_def)

lemma adopt_no_key:
  "\<not> has_key sel key \<Longrightarrow>
   countWillAdopt_others sem docs sel key val = spec_countWillAdopt sem docs sel key val"
  by (cases sel)
     (simp_all add: has_key_def countWillAdopt_others_def spec_countWillAdopt_def filter_other_keys)

lemma count_adopting:
  assumes "\<And>d. d \<in> set docs \<Longrightarrow>
             sem (obj_set sel key (Obj [(''$ne'', val)])) d =
               (sem (obj_delete sel key) d \<and> \<not> sem (Obj [(key, val)]) d)"
  shows "find_count (store_of sem docs) (obj_set sel key (Obj [(''$ne'', val)])) =
           countWillAdopt_others sem docs sel key val"
proof -
  have "filter (sem (obj_set sel key (Obj [(''$ne'', val)]))) docs =
          filter (\<lambda>d. sem (obj_delete sel key) d \<and> \<not> sem (Obj [(key, val)]) d) docs"
    using assms by (intro filter_cong) simp_all
  then show ?thesis
    by (simp add: store_of_def countWillAdopt_others_def)
qed

lemma selector_object_cases:
  assumes "truthy selector" and "isObject selector \<or> (\<exists>s. selector = Str s)"
  obtains kvs where "selector_object selector = Obj kvs"
  using assms by (cases selector) (auto simp: selector_object_def)

section \<open>The policy rules of the validator\<close>

text \<open>
  Claim C6. On a field whose definition sets \<^verbatim>\<open>denyUpdate\<close>, the validator answers
  \<^verbatim>\<open>updateNotAllowed\<close> for a value under any modifier operator, whatever the value,
  the selector and the collection are, and sends no query; the one exception is
  \<^verbatim>\<open>$set\<close> with the value \<^verbatim>\<open>undefined\<close>, which it accepts. So \<^verbatim>\<open>$set\<close> of a defined
  value fails and \<^verbatim>\<open>$inc\<close> of any value fails.
\<close>

theorem denyUpdate_rule:
  assumes "denyUpdate def" and "op \<noteq> []"
  shows "validator e st skip selector def val (Some op) key =
           (if op = ''$set'' \<and> val = Undefined then (Inr Valid, [])
            else (Inr (Invalid ''updateNotAllowed''), []))"
  using assms by (simp add: validator_def op_truthy_def)

text \<open>
  The rule at the three modifiers of the specification's example: \<^verbatim>\<open>{$set: {f: 5}}\<close>,
  \<^verbatim>\<open>{$set: {f: undefined}}\<close> and \<^verbatim>\<open>{$inc: {f: 1}}\<close>.
\<close>

theorem denyUpdate_rule_witness:
  "denyUpdate locked \<and>
   validator server (mem_store []) False Null locked (Num 5) (Some ''$set'') ''f''
     = (Inr (Invalid ''updateNotAllowed''), []) \<and>
   validator server (mem_store []) False Null locked Undefined (Some ''$set'') ''f''
     = (Inr Valid, []) \<and>
   validator server (mem_store []) False Null locked (Num 1) (Some ''$inc'') ''f''
     = (Inr (Invalid ''updateNotAllowed''), [])"
  using denyUpdate_rule [of locked "''$set''" server "mem_store []" False Null "Num 5" "''f''"]
        denyUpdate_rule [of locked "''$set''" server "mem_store []" False Null Undefined "''f''"]
        denyUpdate_rule [of locked "''$inc''" server "mem_store []" False Null "Num 1" "''f''"]
  by (simp add: locked_def)

section \<open>The uniqueness rule of the validator\<close>

text \<open>
  Claim C2, as the code has it. For \<^verbatim>\<open>$inc\<close> on a unique field (no \<^verbatim>\<open>denyUpdate\<close>, the
  check not switched off), with a value that is neither \<^verbatim>\<open>undefined\<close> nor \<^verbatim>\<open>null\<close>
  and no usable server-side index, the validator leaves the cached selector alone and
  sends no count query; it sends the single lookup \<^verbatim>\<open>findOne({key: val})\<close>, the one an
  insert sends, and answers \<^verbatim>\<open>notUnique\<close> exactly when that lookup finds a document.
\<close>

theorem inc_lookup:
  assumes "unique def" and "\<not> skip" and "\<not> denyUpdate def"
    and "val \<noteq> Undefined" and "val \<noteq> Null" and "\<not> (isServer e \<and> usable_index def)"
  shows "validator e st skip selector def val (Some ''$inc'') key =
           (Inr (if findOne st (Obj [(key, val)]) \<noteq> None then Invalid ''notUnique'' else Valid),
            [FindOneQuery (Obj [(key, val)])])"
  using assms by (simp add: validator_def op_truthy_def Let_def)

text \<open>An increment by 1 on a collection in which no document holds 1 for the field.\<close>

theorem inc_lookup_witness:
  "unique unique_plain \<and> \<not> denyUpdate unique_plain \<and>
   validator client (mem_store [Obj [(''n'', Num 2)]]) False (Obj [(''_id'', Str ''a'')])
       unique_plain (Num 1) (Some ''$inc'') ''n''
     = (Inr Valid, [FindOneQuery (Obj [(''n'', Num 1)])])"
  using inc_lookup [of unique_plain False "Num 1" client "mem_store [Obj [(''n'', Num 2)]]"
                       "Obj [(''_id'', Str ''a'')]" "''n''"]
  by (simp add: unique_plain_def client_def usable_index_def mem_store_def field_sat_def
        is_ne_constraint_def)

text \<open>
  Claim C2 as stated fails: an increment by 1, on a collection in which a document
  holds 1 for the field, is answered \<^verbatim>\<open>notUnique\<close>, after a lookup query.
\<close>

theorem inc_counterexample:
  "validator client (mem_store [Obj [(''n'', Num 1)]]) False (Obj [(''_id'', Str ''a'')])
       unique_plain (Num 1) (Some ''$inc'') ''n''
     = (Inr (Invalid ''notUnique''), [FindOneQuery (Obj [(''n'', Num 1)])])"
  by (simp add: validator_def unique_plain_def client_def usable_index_def mem_store_def
        field_sat_def is_ne_constraint_def op_truthy_def)

text \<open>
  Claim C5, as the code has it. The storage engine reads queries by \<open>sem\<close>; it is
  taken to read the selector with \<^verbatim>\<open>{$ne: val}\<close> put on the field as the rest of the
  selector together with the negation of the equality query \<^verbatim>\<open>{key: val}\<close> (a selector
  is the conjunction of its constraints, \<^verbatim>\<open>$ne\<close> negates equality). For a modifier
  operator other than \<^verbatim>\<open>$inc\<close> on a unique field (no \<^verbatim>\<open>denyUpdate\<close>, the check not
  switched off), with a value that is neither \<^verbatim>\<open>undefined\<close> nor \<^verbatim>\<open>null\<close> and no
  usable server-side index, and a cached selector that is an id string or an object:
  the validator answers \<^verbatim>\<open>notUnique\<close> exactly when
  countMatchingValue + countWillAdopt > 1, where countMatchingValue counts the documents
  of the whole collection holding the value for the field, and countWillAdopt counts
  the documents that do not hold it and that satisfy the selector's constraints on the
  other fields (the query overwrites the selector's own constraint on the field). When
  the selector does not mention the field, countWillAdopt is the number of documents
  matched by the selector that do not hold the value. With no selector cached the
  validator answers that there is no violation and sends no query.
\<close>

theorem update_count:
  assumes "unique def" and "\<not> skip" and "\<not> denyUpdate def"
    and "val \<noteq> Undefined" and "val \<noteq> Null"
    and "\<not> (isServer e \<and> usable_index def)"
    and "op \<noteq> []" and "op \<noteq> ''$inc''"
    and "\<not> truthy selector \<or> isObject selector \<or> (\<exists>s. selector = Str s)"
    and "\<And>d. d \<in> set docs \<Longrightarrow>
           sem (obj_set (selector_object selector) key (Obj [(''$ne'', val)])) d =
             (sem (obj_delete (selector_object selector) key) d \<and> \<not> sem (Obj [(key, val)]) d)"
  shows "validator e (store_of sem docs) skip selector def val (Some op) key =
           (if \<not> truthy selector then (Inr Valid, [])
            else (Inr (if spec_countMatchingValue sem docs key val
                          + countWillAdopt_others sem docs (selector_object selector) key val > 1
                       then Invalid ''notUnique'' else Valid),
                  [CountQuery (Obj [(key, val)]),
                   CountQuery (obj_set (selector_object selector) key (Obj [(''$ne'', val)]))]))
         \<and> (\<not> has_key (selector_object selector) key \<longrightarrow>
              countWillAdopt_others sem docs (selector_object selector) key val
                = spec_countWillAdopt sem docs (selector_object selector) key val)"
proof (cases "truthy selector")
  case False
  then have "\<not> truthy (clone selector)"
    by (cases selector) auto
  with assms(1-8) show ?thesis
    by (simp add: validator_def op_truthy_def Let_def False adopt_no_key)
next
  case True
  with assms(9) obtain kvs where so: "selector_object selector = Obj kvs"
    by (auto elim: selector_object_cases)
  from True assms(9) have tc: "truthy (clone selector)"
    by (cases selector) auto
  have sel: "(case clone selector of Str s \<Rightarrow> Obj [(''_id'', clone selector)]
              | _ \<Rightarrow> clone selector) = Obj kvs"
    using so by (cases selector) (auto simp: selector_object_def split: if_splits)
  have holding: "find_count (store_of sem docs) (Obj [(key, val)]) =
                 spec_countMatchingValue sem docs key val"
    by (simp add: store_of_def spec_countMatchingValue_def)
  have adopting: "find_count (store_of sem docs) (Obj (assign kvs key (Obj [(''$ne'', val)]))) =
                    countWillAdopt_others sem docs (Obj kvs) key val"
    using count_adopting [of docs sem "Obj kvs" key val] assms(10) so by simp
  show ?thesis
    using assms(1-8) True tc
    by (simp add: validator_def op_truthy_def Let_def sel so holding adopting adopt_no_key)
qed

text \<open>
  Two documents with the codes A and B, in the small engine. Setting the code B on the
  document with id a is a violation (one document holds B, one would adopt it); setting
  it on the document with id b, which holds it, is not; with no selector cached there
  is no violation.
\<close>

theorem update_count_witness:
  "unique unique_plain \<and> \<not> denyUpdate unique_plain \<and>
   validator client (store_of matches coded_docs) False (Str ''a'') unique_plain (Str ''B'')
       (Some ''$set'') ''code''
     = (Inr (Invalid ''notUnique''),
        [CountQuery (Obj [(''code'', Str ''B'')]),
         CountQuery (Obj [(''_id'', Str ''a''), (''code'', Obj [(''$ne'', Str ''B'')])])]) \<and>
   validator client (store_of matches coded_docs) False (Str ''b'') unique_plain (Str ''B'')
       (Some ''$set'') ''code''
     = (Inr Valid,
        [CountQuery (Obj [(''code'', Str ''B'')]),
         CountQuery (Obj [(''_id'', Str ''b''), (''code'', Obj [(''$ne'', Str ''B'')])])]) \<and>
   validator client (store_of matches coded_docs) False Null unique_plain (Str ''B'')
       (Some ''$set'') ''code''
     = (Inr Valid, []) \<and>
   spec_countWillAdopt matches coded_docs (Obj [(''_id'', Str ''a'')]) ''code'' (Str ''B'') = 1"
proof -
  have plain: "\<not> is_ne_constraint (Str ''B'')"
    by (simp add: is_ne_constraint_def)
  note conj = matches_conjunctive [OF plain]
  show ?thesis
    using update_count [of unique_plain False "Str ''B''" client "''$set''" "Str ''a''"
                           coded_docs matches "''code''", OF _ _ _ _ _ _ _ _ _ conj]
          update_count [of unique_plain False "Str ''B''" client "''$set''" "Str ''b''"
                           coded_docs matches "''code''", OF _ _ _ _ _ _ _ _ _ conj]
          update_count [of unique_plain False "Str ''B''" client "''$set''" Null
                           coded_docs matches "''code''", OF _ _ _ _ _ _ _ _ _ conj]
    by (simp add: unique_plain_def client_def usable_index_def is_ne_constraint_def
          selector_object_def has_key_def assign_def coded_docs_def field_sat_def
          spec_countMatchingValue_def countWillAdopt_others_def spec_countWillAdopt_def)
qed

text \<open>
  Claim C5 as stated fails where the selector constrains the field itself. The update
  \<^verbatim>\<open>{code: "A"}\<close>, \<^verbatim>\<open>{$set: {code: "X"}}\<close> on the two documents changes one document and
  no document holds X: the counts of the claim add up to 1. The validator answers
  \<^verbatim>\<open>notUnique\<close>.
\<close>

theorem update_count_counterexample:
  "fst (validator client (store_of matches coded_docs) False (Obj [(''code'', Str ''A'')])
          unique_plain (Str ''X'') (Some ''$set'') ''code'') = Inr (Invalid ''notUnique'') \<and>
   \<not> (spec_countMatchingValue matches coded_docs ''code'' (Str ''X'')
        + spec_countWillAdopt matches coded_docs (Obj [(''code'', Str ''A'')]) ''code'' (Str ''X'')
      > 1)"
  by (simp add: validator_def unique_plain_def client_def usable_index_def store_of_def
        field_sat_def is_ne_constraint_def op_truthy_def coded_docs_def assign_def
        spec_countMatchingValue_def spec_countWillAdopt_def)

section \<open>Index setup\<close>

lemma index_startup_flags:
  assumes "index_startup fieldName fdef indexValue = EnsureIndex spec opts"
  shows "spec = (fieldName, if indexValue = IdxBool True then IdxNum 1 else indexValue) \<and>
         ix_name opts = ''c2_'' @ fieldName \<and>
         ix_unique opts =
           (unique fdef \<and> indexValue \<in> {IdxNum 1, IdxNum (- 1), IdxBool True}) \<and>
         ix_sparse opts =
           (optional fdef \<and> unique fdef
              \<and> indexValue \<in> {IdxNum 1, IdxNum (- 1), IdxBool True})"
  using assms by (auto simp: index_startup_def Let_def split: if_splits)

text \<open>
  Claim C10. Every index-ensure call that \<^verbatim>\<open>attachSchema\<close> schedules belongs to a field
  of the schema with an index specification, and it passes \<^verbatim>\<open>unique: true\<close> exactly when
  the field's definition sets \<^verbatim>\<open>unique\<close> and the specification is 1, -1 or \<^verbatim>\<open>true\<close>
  (which is passed on as 1), and \<^verbatim>\<open>sparse: true\<close> exactly when in addition the field is
  optional; for any other specification both are false.
\<close>

theorem index_flags:
  assumes "EnsureIndex spec opts \<in> set (scheduled_index_actions e defs)"
  shows "\<exists>fdef indexValue.
           (fst spec, fdef) \<in> set defs \<and> index fdef = Some indexValue \<and>
           ix_name opts = ''c2_'' @ fst spec \<and>
           snd spec = (if indexValue = IdxBool True then IdxNum 1 else indexValue) \<and>
           ix_unique opts =
             (unique fdef \<and> indexValue \<in> {IdxNum 1, IdxNum (- 1), IdxBool True}) \<and>
           ix_sparse opts =
             (optional fdef \<and> unique fdef
                \<and> indexValue \<in> {IdxNum 1, IdxNum (- 1), IdxBool True})"
  using assms
proof (induction defs)
  case Nil
  then show ?case by simp
next
  case (Cons fd rest)
  obtain fieldName fdef where fd: "fd = (fieldName, fdef)"
    by (cases fd)
  from Cons.prems fd have
    "(\<exists>indexValue. index fdef = Some indexValue \<and>
        index_startup fieldName fdef indexValue = EnsureIndex spec opts)
     \<or> EnsureIndex spec opts \<in> set (scheduled_index_actions e rest)"
    by (cases "index fdef") (auto split: if_splits)
  then consider
      (here) indexValue where "index fdef = Some indexValue"
        "index_startup fieldName fdef indexValue = EnsureIndex spec opts"
    | (later) "EnsureIndex spec opts \<in> set (scheduled_index_actions e rest)"
    by blast
  then show ?case
  proof cases
    case here
    from index_startup_flags [OF here(2)] here(1) fd show ?thesis
      by (intro exI [of _ fdef] exI [of _ indexValue]) simp
  next
    case later
    from Cons.IH [OF later] show ?thesis
      by (metis list.set_intros(2))
  qed
qed

text \<open>
  Two unique optional fields on the server: \<^verbatim>\<open>index: true\<close> gives a unique sparse
  index of direction 1, \<^verbatim>\<open>index: "2d"\<close> an index that is neither.
\<close>

theorem index_flags_witness:
  "scheduled_index_actions server indexed_fields =
     [EnsureIndex (''email'', IdxNum 1)
        \<lparr>ix_background = True, ix_name = ''c2_email'', ix_unique = True, ix_sparse = True\<rparr>,
      EnsureIndex (''place'', IdxStr ''2d'')
        \<lparr>ix_background = True, ix_name = ''c2_place'', ix_unique = False, ix_sparse = False\<rparr>] \<and>
   (\<exists>fdef indexValue.
      (''email'', fdef) \<in> set indexed_fields \<and> index fdef = Some indexValue \<and>
      True = (unique fdef \<and> indexValue \<in> {IdxNum 1, IdxNum (- 1), IdxBool True}))"
proof -
  have run: "scheduled_index_actions server indexed_fields =
     [EnsureIndex (''email'', IdxNum 1)
        \<lparr>ix_background = True, ix_name = ''c2_email'', ix_unique = True, ix_sparse = True\<rparr>,
      EnsureIndex (''place'', IdxStr ''2d'')
        \<lparr>ix_background = True, ix_name = ''c2_place'', ix_unique = False, ix_sparse = False\<rparr>]"
    by (simp add: indexed_fields_def server_def index_startup_def)
  then have "EnsureIndex (''email'', IdxNum 1)
        \<lparr>ix_background = True, ix_name = ''c2_email'', ix_unique = True, ix_sparse = True\<rparr>
      \<in> set (scheduled_index_actions server indexed_fields)"
    by simp
  from index_flags [OF this] run show ?thesis
    by simp blast
qed

section \<open>Runs of doValidate\<close>

lemmas run_defs =
  doValidate_def gather_def normalise_def arg_def set_arg_def validate_gathered_def
  validation_of_def validate_options_def snapshot_def live_doc_def merged_clone_def
  cleaned_doc_def
  detached_doc_def detaches_id_def first_clean_opts_def second_clean_opts_def doClean_opts_def
  op_ctx_def is_upsert_def effective_callback_def failure_message_def success_args_def
  name_schema_def name_required_def server_def client_def Let_def

lemma validate_flag_object:
  assumes "obj_get options ''validate'' = Bool False"
  shows "truthy options \<and> \<not> is_function options"
  using assms by (cases options) simp_all

text \<open>
  Claim C8. An insert whose options carry \<^verbatim>\<open>validate: false\<close> makes no call to
  \<^verbatim>\<open>clean\<close> or \<^verbatim>\<open>validate\<close> and none to a callback; \<^verbatim>\<open>doValidate\<close> leaves the
  document object as it was and hands back the document, followed by the callback if
  one was given, which is not wrapped; the wrapped \<^verbatim>\<open>insert\<close> makes exactly one call,
  the storage insert with that list.
\<close>

theorem insert_validate_false:
  assumes "args \<noteq> []" and "obj_get (arg args 1) ''validate'' = Bool False"
  shows "doValidate e sch selector0 ''insert'' args skip uid trusted =
           \<lparr>outcome = Returned (arg args 0 # (if is_function (arg args 2) then [arg args 2] else [])),
            selector_after = Null, doc_after = arg args 0, trace = []\<rparr>
         \<and> c2_write e (Some sch) selector0 currentUser ''insert'' args =
           \<lparr>w_outcome = ReturnsSuper, w_selector = Null,
            w_trace = [StorageCall ''insert''
                        (arg args 0 # (if is_function (arg args 2) then [arg args 2] else []))]\<rparr>"
proof -
  from validate_flag_object [OF assms(2)]
  have opts: "truthy (arg args 1)" "\<not> is_function (arg args 1)"
    by simp_all
  have dv: "doValidate e sch selector0 ''insert'' args skip uid trusted =
           \<lparr>outcome = Returned (arg args 0 # (if is_function (arg args 2) then [arg args 2] else [])),
            selector_after = Null, doc_after = arg args 0, trace = []\<rparr>" for skip uid trusted
    using assms opts
    by (simp add: doValidate_def gather_def normalise_def validate_gathered_def Let_def)
  then show ?thesis
    by (simp add: c2_write_def Let_def)
qed

text \<open>
  An insert on the server of a document with an \<^verbatim>\<open>_id\<close> and a key the schema does not
  have, with \<^verbatim>\<open>{validate: false}\<close> and a callback.
\<close>

theorem insert_validate_false_witness:
  "obj_get (arg [Obj [(''_id'', Str ''x''), (''junk'', Num 1)], Obj [(''validate'', Bool False)], UserFn 7] 1)
      ''validate'' = Bool False \<and>
   c2_write server (Some name_schema) Null Undefined ''insert''
      [Obj [(''_id'', Str ''x''), (''junk'', Num 1)], Obj [(''validate'', Bool False)], UserFn 7] =
     \<lparr>w_outcome = ReturnsSuper, w_selector = Null,
      w_trace = [StorageCall ''insert'' [Obj [(''_id'', Str ''x''), (''junk'', Num 1)], UserFn 7]]\<rparr>"
  using insert_validate_false [of "[Obj [(''_id'', Str ''x''), (''junk'', Num 1)], Obj [(''validate'', Bool False)], UserFn 7]"
          server name_schema Null False Null True Undefined]
  by (simp add: arg_def)

lemma validate_gathered_failure:
  assumes "obj_get (g_options g) ''validate'' \<noteq> Bool False"
    and "\<not> (isServer e \<and> is_nullish (g_doc g))"
    and "\<not> isValid (validation_of e sch type g skip uid trusted)"
  shows "validate_gathered e sch type g skip uid trusted =
     (let callback = effective_callback e type (g_callback g);
          vCtx = obj_get (g_options g) ''validationContext'';
          v = validation_of e sch type g skip uid trusted;
          error = ValidationError (failure_message sch vCtx (invalidKeys v)) (invalidKeys v);
          calls =
            [CleanCall (detached_doc e sch (g_doc g))
               (first_clean_opts e type (g_options g) skip uid trusted)]
            @ (if isClient e
               then [CleanCall (merged_clone e type g (cleaned_doc e sch type g skip uid trusted))
                       (second_clean_opts type (g_options g) uid trusted)]
               else [])
            @ [ValidateCall vCtx (snapshot e sch type g skip uid trusted)
                 (validate_options type (g_options g) uid trusted)]
      in \<lparr>outcome = (if is_function callback then NoArgs
                      else if truthy callback then Thrown TypeError else Thrown error),
          selector_after = Null,
          doc_after = live_doc e sch type g skip uid trusted,
          trace = calls @ (if is_function callback
                           then [CallbackCall callback error (Bool False)] else [])\<rparr>)"
proof -
  have fn: "is_function c \<Longrightarrow> truthy c" for c
    by (cases c) simp_all
  show ?thesis
    using assms by (auto simp: validate_gathered_def Let_def dest: fn)
qed

lemma c2_write_no_storage:
  assumes "\<And>a. outcome r \<noteq> Returned a"
    and "\<And>m a. StorageCall m a \<notin> set (trace r)"
    and "r = doValidate e sch selector0 methodName args False
               (wrapper_userId e currentUser) (isServer e)"
  shows "StorageCall m a
           \<notin> set (w_trace (c2_write e (Some sch) selector0 currentUser methodName args))"
  using assms by (cases "outcome r") (auto simp: c2_write_def Let_def)

text \<open>
  Claim C9. Take a write that reaches validation (arguments given, a known operation,
  validation not switched off, a document to read \<^verbatim>\<open>_id\<close> from on the server) and fails
  it. The error carries all the invalid keys of the validation, and its message names
  the first of them when there is one. If the callback in effect, given or synthesised
  on the client, is a function, it is called last, with the error and \<^verbatim>\<open>false\<close>, and
  \<^verbatim>\<open>doValidate\<close> returns no argument list; if there is none, the error is thrown. In no
  case is an argument list returned, and the wrapped method makes no storage call.
\<close>

theorem validation_failure:
  assumes "args \<noteq> []" and "gather type args = Inr g"
    and "obj_get (g_options g) ''validate'' \<noteq> Bool False"
    and "\<not> (isServer e \<and> is_nullish (g_doc g))"
    and "\<not> isValid (validation_of e sch type g skip uid trusted)"
  shows "let r = doValidate e sch selector0 type args skip uid trusted;
             callback = effective_callback e type (g_callback g);
             vCtx = obj_get (g_options g) ''validationContext'';
             keys = invalidKeys (validation_of e sch type g skip uid trusted);
             error = ValidationError (failure_message sch vCtx keys) keys
         in (is_function callback \<longrightarrow>
               outcome r = NoArgs \<and> last (trace r) = CallbackCall callback error (Bool False)) \<and>
            (\<not> truthy callback \<longrightarrow> outcome r = Thrown error) \<and>
            (\<forall>a. outcome r \<noteq> Returned a) \<and>
            (\<forall>m a. StorageCall m a \<notin> set (trace r)) \<and>
            (keys \<noteq> [] \<longrightarrow>
               failure_message sch vCtx keys =
                 ''failed validation: '' @ ik_name (hd keys) @ '': ''
                   @ keyErrorMessage sch vCtx (ik_name (hd keys))) \<and>
            (skip = False \<and> uid = wrapper_userId e currentUser \<and> trusted = isServer e \<longrightarrow>
               (\<forall>m a. StorageCall m a
                  \<notin> set (w_trace (c2_write e (Some sch) selector0 currentUser type args))))"
proof -
  define r where "r = doValidate e sch selector0 type args skip uid trusted"
  have fn: "is_function c \<Longrightarrow> truthy c" for c
    by (cases c) simp_all
  have dv: "r = validate_gathered e sch type g skip uid trusted"
    using assms(1,2) by (simp add: r_def doValidate_def)
  note vg = validate_gathered_failure [OF assms(3-5)]
  have not_returned: "outcome r \<noteq> Returned a" for a
    using dv vg by (simp add: Let_def)
  have no_storage: "StorageCall m a \<notin> set (trace r)" for m a
    using dv vg by (auto simp: Let_def)
  have msg: "keys \<noteq> [] \<longrightarrow>
               failure_message sch vCtx keys =
                 ''failed validation: '' @ ik_name (hd keys) @ '': ''
                   @ keyErrorMessage sch vCtx (ik_name (hd keys))" for keys vCtx
    by (cases keys) (simp_all add: failure_message_def)
  have w: "skip = False \<and> uid = wrapper_userId e currentUser \<and> trusted = isServer e \<longrightarrow>
        (\<forall>m a. StorageCall m a
            \<notin> set (w_trace (c2_write e (Some sch) selector0 currentUser type args)))"
  proof (intro impI allI)
    fix m a
    assume "skip = False \<and> uid = wrapper_userId e currentUser \<and> trusted = isServer e"
    then have "r = doValidate e sch selector0 type args False
                     (wrapper_userId e currentUser) (isServer e)"
      by (simp add: r_def)
    then show "StorageCall m a
            \<notin> set (w_trace (c2_write e (Some sch) selector0 currentUser type args))"
      using c2_write_no_storage [of r] not_returned no_storage by blast
  qed
  have cb: "is_function (effective_callback e type (g_callback g)) \<longrightarrow>
               outcome r = NoArgs \<and>
               last (trace r) =
                 CallbackCall (effective_callback e type (g_callback g))
                   (ValidationError
                      (failure_message sch (obj_get (g_options g) ''validationContext'')
                         (invalidKeys (validation_of e sch type g skip uid trusted)))
                      (invalidKeys (validation_of e sch type g skip uid trusted)))
                   (Bool False)"
    using dv vg by (simp add: Let_def)
  have thrown: "\<not> truthy (effective_callback e type (g_callback g)) \<longrightarrow>
               outcome r =
                 Thrown (ValidationError
                      (failure_message sch (obj_get (g_options g) ''validationContext'')
                         (invalidKeys (validation_of e sch type g skip uid trusted)))
                      (invalidKeys (validation_of e sch type g skip uid trusted)))"
    using dv vg by (auto simp: Let_def dest: fn)
  show ?thesis
    unfolding Let_def r_def [symmetric]
    using cb thrown not_returned no_storage msg w by blast
qed

text \<open>
  An insert on the server of a document without the required \<^verbatim>\<open>name\<close>, with options
  and a callback.
\<close>

theorem validation_failure_witness:
  "gather ''insert'' [ageless, Obj [], UserFn 1] =
     Inr \<lparr>g_args = [ageless, UserFn 1], g_selector = Null, g_doc = ageless,
          g_options = Obj [], g_callback = UserFn 1\<rparr> \<and>
   \<not> isValid (validation_of server name_schema ''insert''
        \<lparr>g_args = [ageless, UserFn 1], g_selector = Null, g_doc = ageless,
         g_options = Obj [], g_callback = UserFn 1\<rparr> False Null True) \<and>
   outcome (doValidate server name_schema Null ''insert'' [ageless, Obj [], UserFn 1] False Null True)
     = NoArgs \<and>
   last (trace (doValidate server name_schema Null ''insert'' [ageless, Obj [], UserFn 1] False Null True))
     = CallbackCall (UserFn 1)
         (ValidationError ''failed validation: name: Name is required'' [name_required])
         (Bool False) \<and>
   (\<forall>m a. StorageCall m a \<notin> set (w_trace
      (c2_write server (Some name_schema) Null Undefined ''insert'' [ageless, Obj [], UserFn 1])))"
  using validation_failure [of "[ageless, Obj [], UserFn 1]" "''insert''"
          "\<lparr>g_args = [ageless, UserFn 1], g_selector = Null, g_doc = ageless,
            g_options = Obj [], g_callback = UserFn 1\<rparr>"
          server name_schema False Null True Null Undefined]
  by (simp add: gather_def normalise_def arg_def ageless_def validation_of_def snapshot_def
        merged_clone_def cleaned_doc_def detached_doc_def detaches_id_def name_schema_def
        server_def first_clean_opts_def doClean_opts_def is_upsert_def effective_callback_def
        failure_message_def name_required_def wrapper_userId_def Let_def)





text \<open>
  The second pass and the live modifier. The shallow clone shares the \<^verbatim>\<open>$set\<close> object
  with the modifier, so in the same update the automatic value computed for validation
  is in the modifier that \<^verbatim>\<open>doValidate\<close> returns for storage.
\<close>

lemma snapshot_pass_reaches_live:
  "outcome (doValidate client stamp_schema Null ''update'' rename_update False Null False)
     = Returned [Str ''id1'', Obj [(''$set'', Obj [(''name'', Str ''b''), (''updatedAt'', Num 7)])]] \<and>
   doc_after (doValidate client stamp_schema Null ''update'' rename_update False Null False)
     = Obj [(''$set'', Obj [(''name'', Str ''b''), (''updatedAt'', Num 7)])]"
  by (simp add: doValidate_def gather_def normalise_def arg_def set_arg_def validate_gathered_def
        validation_of_def snapshot_def live_doc_def merged_clone_def cleaned_doc_def
        detached_doc_def detaches_id_def first_clean_opts_def second_clean_opts_def
        doClean_opts_def is_upsert_def success_args_def stamp_schema_def rename_update_def
        client_def assign_def Let_def)

text \<open>
  The \<^verbatim>\<open>_id\<close> on the path that succeeds: where it is taken off, the document handed to
  the first cleaning pass has none, and the document is given its \<^verbatim>\<open>_id\<close> back after
  validation.
\<close>

lemma id_detached_before_clean:
  assumes "detaches_id e sch doc"
  shows "obj_get (detached_doc e sch doc) ''_id'' = Undefined"
proof -
  have "lookup (filter (\<lambda>(k', v'). k' \<noteq> k) kvs) k = Undefined" for kvs k
    by (induction kvs) auto
  with assms show ?thesis
    by (cases doc) (simp_all add: detached_doc_def detaches_id_def)
qed

lemma id_restored_on_success:
  assumes "args \<noteq> []" and "gather type args = Inr g"
    and "obj_get (g_options g) ''validate'' \<noteq> Bool False"
    and "detaches_id e sch (g_doc g)"
    and "isValid (validation_of e sch type g skip uid trusted)"
  shows "doc_after (doValidate e sch selector0 type args skip uid trusted) =
           obj_set (live_doc e sch type g skip uid trusted) ''_id'' (obj_get (g_doc g) ''_id'')"
proof -
  from assms(4) have "\<not> is_nullish (g_doc g)" "truthy (obj_get (g_doc g) ''_id'')"
    by (cases "g_doc g"; simp add: detaches_id_def)+
  with assms show ?thesis
    by (simp add: doValidate_def validate_gathered_def Let_def)
qed

text \<open>
  Claim C3, where the code departs from it. An insert on the server of a document with
  the \<^verbatim>\<open>_id\<close> \<^verbatim>\<open>"abc"\<close>, which the schema does not declare, and without the required
  \<^verbatim>\<open>name\<close>: validation fails, the error is thrown, and the caller's document is left
  without its \<^verbatim>\<open>_id\<close>. The same insert with a \<^verbatim>\<open>name\<close> succeeds and the document has
  its \<^verbatim>\<open>_id\<close> again.
\<close>

theorem id_not_restored_on_failure:
  "outcome (doValidate server name_schema Null ''insert'' [with_id] False Null True)
     = Thrown (ValidationError ''failed validation: name: Name is required'' [name_required]) \<and>
   doc_after (doValidate server name_schema Null ''insert'' [with_id] False Null True) = Obj [] \<and>
   doc_after (doValidate server name_schema Null ''insert'' [named_with_id] False Null True)
     = Obj [(''name'', Str ''a''), (''_id'', Str ''abc'')]"
  by (simp add: run_defs with_id_def named_with_id_def assign_def)

text \<open>
  The cached selector after a call that goes through validation, or that is an insert:
  it is \<^verbatim>\<open>null\<close>.
\<close>

lemma selector_cleared_after_validation:
  assumes "args \<noteq> []" and "gather type args = Inr g"
    and "obj_get (g_options g) ''validate'' \<noteq> Bool False"
    and "\<not> (isServer e \<and> is_nullish (g_doc g))"
  shows "selector_after (doValidate e sch selector0 type args skip uid trusted) = Null"
  using assms by (auto simp: doValidate_def validate_gathered_def Let_def)

lemma selector_null_after_insert:
  assumes "args \<noteq> []"
  shows "selector_after (doValidate e sch selector0 ''insert'' args skip uid trusted) = Null"
  using assms
  by (simp add: doValidate_def gather_def normalise_def validate_gathered_def Let_def)

text \<open>
  Claim C7, where the code departs from it. An update with \<^verbatim>\<open>{validate: false}\<close>:
  \<^verbatim>\<open>doValidate\<close> returns the argument list to its caller and the selector of the call
  is still cached.
\<close>

theorem selector_kept_when_validation_skipped:
  "outcome (doValidate server name_schema Null ''update'' skipped_update False Null True)
     = Returned skipped_update \<and>
   selector_after (doValidate server name_schema Null ''update'' skipped_update False Null True)
     = Obj [(''name'', Str ''a'')]"
  by (simp add: run_defs skipped_update_def)

section \<open>The wrapped callback\<close>

text \<open>
  The strings: when \<^verbatim>\<open>indexOf\<close> finds the separator, \<^verbatim>\<open>split\<close> gives two pieces or
  more, so the field name is always parsed out of a message that passed the test of
  line 479.
\<close>

lemma split_go_nonempty: "split_go sep skip acc s \<noteq> []"
  by (induction sep skip acc s rule: split_go.induct) auto

lemma split_go_two_pieces:
  assumes "indexOf_from i s pat \<noteq> - 1" and "pat \<noteq> []"
  shows "\<exists>p0 p1 ps. split_go pat 0 acc s = p0 # p1 # ps"
  using assms
proof (induction s arbitrary: i acc)
  case Nil
  then show ?case by simp
next
  case (Cons c cs)
  show ?case
  proof (cases "starts_with pat (c # cs)")
    case True
    obtain q qs where "split_go pat (length pat - 1) [] cs = q # qs"
      using split_go_nonempty [of pat "length pat - 1" "[]" cs] by (cases "split_go pat (length pat - 1) [] cs") auto
    with True show ?thesis by simp
  next
    case False
    with Cons.prems have "indexOf_from (Suc i) cs pat \<noteq> - 1"
      by simp
    from Cons.IH [OF this Cons.prems(2)] False show ?thesis
      by simp
  qed
qed

lemma translated_parses:
  assumes "is_translated err"
  shows "\<exists>fName. parse_field_name (err_message err) = Inr fName"
proof -
  from assms have "indexOf_from 0 (err_message err) ''c2_'' \<noteq> - 1"
    by (simp add: is_translated_def indexOf_def)
  then obtain p0 p1 ps where "split (err_message err) ''c2_'' = p0 # p1 # ps"
    unfolding split_def using split_go_two_pieces [of 0 "err_message err" "''c2_''" "[]"] by auto
  moreover obtain f fs where "split p1 '' '' = f # fs"
    unfolding split_def using split_go_nonempty [of "'' ''" 0 "[]" p1]
    by (cases "split_go '' '' 0 [] p1") auto
  ultimately show ?thesis
    by (simp add: parse_field_name_def)
qed

text \<open>
  Whatever the error, the call ends in a call of the callback with the arguments as
  they came; an error the test of line 479 rejects leaves the contexts as they were,
  one it accepts has a \<^verbatim>\<open>notUnique\<close> record for the parsed field appended to the named
  context.
\<close>

lemma callback_always_called:
  "\<exists>ctxs'. notUnique_wrapper_call sch info ctxs doc vCtx cb error result =
             Inr (ctxs', (cb, error, result))"
proof (cases error)
  case None
  then show ?thesis by (simp add: notUnique_wrapper_call_def)
next
  case (Some err)
  show ?thesis
  proof (cases "is_translated err")
    case True
    from translated_parses [OF True] obtain fName
      where "parse_field_name (err_message err) = Inr fName" ..
    with Some True show ?thesis
      by (simp add: notUnique_wrapper_call_def Let_def)
  next
    case False
    with Some show ?thesis by (simp add: notUnique_wrapper_call_def)
  qed
qed

lemma translated_appends:
  assumes "is_translated err" and "parse_field_name (err_message err) = Inr fName"
  shows "\<exists>ctxs'. notUnique_wrapper_call sch info ctxs doc vCtx cb (Some err) result =
             Inr (ctxs', (cb, Some err, result)) \<and>
           ctxs' vCtx = ctxs vCtx @
             [\<lparr>ik_name = fName, ik_type = ''notUnique'',
               ik_value = (case info doc fName of Some v \<Rightarrow> v | None \<Rightarrow> Undefined),
               ik_message = messageForError sch ''notUnique'' fName
                  (case info doc fName of Some v \<Rightarrow> v | None \<Rightarrow> Undefined)\<rparr>]"
  using assms by (simp add: notUnique_wrapper_call_def Let_def)

lemma untranslated_passthrough:
  assumes "\<not> is_translated err"
  shows "notUnique_wrapper_call sch info ctxs doc vCtx cb (Some err) result =
           Inr (ctxs, (cb, Some err, result))"
  using assms by (simp add: notUnique_wrapper_call_def)

text \<open>
  Claim C1, where the code departs from it. A storage error that is not a duplicate-key
  error (a MongoError of code 13, ``not authorized on c2_app to execute command'') but
  has \<^verbatim>\<open>c2_\<close> in its message: the wrapped callback appends a \<^verbatim>\<open>notUnique\<close> record for
  a field \<^verbatim>\<open>app\<close> to the validation context, and then calls the callback with the error.
\<close>

theorem other_error_translated:
  "\<not> spec_duplicate_key_error not_authorized \<and>
   (case notUnique_wrapper_call name_schema flat_info (\<lambda>vCtx. []) named Undefined (UserFn 1)
           (Some not_authorized) (Bool False) of
      Inr (ctxs, call) \<Rightarrow>
        ctxs Undefined =
          [\<lparr>ik_name = ''app'', ik_type = ''notUnique'', ik_value = Undefined,
            ik_message = ''app must be unique''\<rparr>] \<and>
        call = (UserFn 1, Some not_authorized, Bool False)
    | Inl err \<Rightarrow> False)"
  by (simp add: notUnique_wrapper_call_def is_translated_def spec_duplicate_key_error_def
        not_authorized_def indexOf_def parse_field_name_def split_def flat_info_def has_key_def
        named_def name_schema_def)

end
